theory Spec2Isabelle
  imports Complex_Main "HOL-Library.Sublist"
begin

section \<open>Python strings\<close>

text \<open>
  A Python \<open>str\<close> is a sequence of Unicode code points; \<open>len\<close>, slicing, \<open>split\<close>,
  \<open>strip\<close> and the regular expressions of module \<open>re\<close> all work on code points. A string
  is therefore a list of code points (natural numbers), and an ASCII literal is written
  \<open>S ''abc''\<close>.
\<close>

type_synonym pystr = "nat list"

abbreviation S :: "string \<Rightarrow> pystr" where
  "S s \<equiv> map of_char s"

definition comma :: nat where
  "comma = 44"

definition is_space :: "nat \<Rightarrow> bool" where
  \<comment> \<open>\<open>str.isspace\<close>, which is also the class \<open>\s\<close> of \<open>re\<close> on \<open>str\<close> patterns\<close>
  "is_space c \<longleftrightarrow>
     (9 \<le> c \<and> c \<le> 13) \<or> (28 \<le> c \<and> c \<le> 32) \<or> c = 133 \<or> c = 160 \<or> c = 5760 \<or>
     (8192 \<le> c \<and> c \<le> 8202) \<or> c = 8232 \<or> c = 8233 \<or> c = 8239 \<or> c = 8287 \<or> c = 12288"

definition drop_while_end :: "(nat \<Rightarrow> bool) \<Rightarrow> pystr \<Rightarrow> pystr" where
  "drop_while_end P s = rev (dropWhile P (rev s))"

definition py_strip :: "pystr \<Rightarrow> pystr" where
  \<comment> \<open>\<open>s.strip()\<close>\<close>
  "py_strip s = drop_while_end is_space (dropWhile is_space s)"

definition strip_char :: "nat \<Rightarrow> pystr \<Rightarrow> pystr" where
  \<comment> \<open>\<open>s.strip(c)\<close> for a one-character argument\<close>
  "strip_char c s = drop_while_end (\<lambda>x. x = c) (dropWhile (\<lambda>x. x = c) s)"

fun py_split :: "nat \<Rightarrow> pystr \<Rightarrow> pystr list" where
  \<comment> \<open>\<open>s.split(c)\<close> for a one-character separator: never empty, \<open>''.split(',') == ['']\<close>\<close>
  "py_split c [] = [[]]"
| "py_split c (x # xs) =
     (if x = c then [] # py_split c xs
      else (case py_split c xs of [] \<Rightarrow> [[x]] | y # ys \<Rightarrow> (x # y) # ys))"

fun py_join :: "pystr \<Rightarrow> pystr list \<Rightarrow> pystr" where
  \<comment> \<open>\<open>sep.join(xs)\<close>\<close>
  "py_join sep [] = []"
| "py_join sep [x] = x"
| "py_join sep (x # y # ys) = x @ sep @ py_join sep (y # ys)"

section \<open>Ingredient normalisation\<close>

text \<open>
  The three clean-up lines of \<open>analyze_with_gemini\<close>:
  \<^verbatim>\<open>
  ingredients = re.sub(r'\s+', '', ingredients)
  ingredients = re.sub(r',+', ',', ingredients)
  ingredients = ingredients.strip(',')
  \<close>
  Deleting every maximal run of white space deletes every white-space character;
  \<open>,+\<close> matches each maximal run of commas, which is replaced by one comma.
\<close>

definition remove_whitespace :: "pystr \<Rightarrow> pystr" where
  "remove_whitespace s = filter (\<lambda>c. \<not> is_space c) s"

function collapse_commas :: "pystr \<Rightarrow> pystr" where
  "collapse_commas [] = []"
| "collapse_commas (x # xs) =
     (if x = comma then comma # collapse_commas (dropWhile (\<lambda>c. c = comma) xs)
      else x # collapse_commas xs)"
  by pat_completeness auto
termination
  by (relation "measure length") (auto simp: length_dropWhile_le less_Suc_eq_le)

definition normalize_ingredients :: "pystr \<Rightarrow> pystr" where
  "normalize_ingredients s = strip_char comma (collapse_commas (remove_whitespace s))"

section \<open>Parsed JSON values and exceptions\<close>

text \<open>
  The value returned by \<open>json.loads\<close>: \<open>None\<close>, a \<open>bool\<close>, an \<open>int\<close>, a \<open>float\<close>
  (kept as the numeral that was read; no arithmetic is done on it), a \<open>str\<close>, a \<open>list\<close> or
  a \<open>dict\<close> (its items; \<open>map_of\<close> is the lookup).
\<close>

datatype json =
    JNull
  | JBool bool
  | JInt int
  | JFloat pystr
  | JStr pystr
  | JArr "json list"
  | JObj "(pystr \<times> json) list"

datatype exn =
    JSONDecodeError
  | AttributeError
  | TypeError
  | ServiceError
  | UnicodeEncodeError
  | OverflowError
  | DataError
  | ProgrammingError
  | IntegrityError
  | OperationalError
  | EngineError

fun json_str :: "json \<Rightarrow> pystr option" where
  "json_str (JStr s) = Some s"
| "json_str _ = None"

section \<open>The world outside the program\<close>

text \<open>
  One row of table \<open>recipes\<close> has the seven columns the \<open>INSERT\<close> writes; \<open>dish_name\<close>
  holds whatever \<open>data.get\<close> returned.
\<close>

record recipe =
  video_id :: pystr
  title :: pystr
  description :: pystr
  ingredients :: pystr
  dish_name :: json
  url :: pystr
  data_sources :: pystr

text \<open>
  What the video service, the language model, the clock and the database engine answer
  is not decided by the program; an \<open>env\<close> holds one answer for each call.
  \<open>videos_list\<close> is the title and the description of the first item of
  \<open>youtube.videos().list\<close> (\<open>None\<close> when there is no item or the request raises);
  \<open>get_video_transcript\<close> and \<open>get_video_comments\<close> are the results of the two fetchers,
  which catch every exception and return \<open>None\<close>; \<open>generate_content\<close> is the text of the
  model's answer to a prompt, or \<open>Raises\<close>; \<open>json_loads\<close> is \<open>json.loads\<close>, \<open>None\<close>
  standing for \<open>JSONDecodeError\<close>; \<open>exn_text\<close> is \<open>str(e)\<close>; \<open>int_pct current total\<close> is
  \<open>int((current / total) * 100)\<close>, computed by the source in binary floating point.
  \<open>db_failure\<close> is the exception with which the engine refuses to store a row whose
  parameters it has bound, for a reason other than the uniqueness of \<open>video_id\<close>: a
  locked or full database, a row beyond the engine's size limit.
\<close>

datatype response = Raises | Text pystr

record env =
  videos_list :: "pystr \<Rightarrow> (pystr \<times> pystr) option"
  get_video_transcript :: "pystr \<Rightarrow> pystr option"
  get_video_comments :: "pystr \<Rightarrow> pystr option"
  generate_content :: "pystr \<Rightarrow> response"
  json_loads :: "pystr \<Rightarrow> json option"
  exn_text :: "exn \<Rightarrow> pystr"
  time_time :: real
  int_pct :: "nat \<Rightarrow> nat \<Rightarrow> nat"
  db_failure :: "recipe \<Rightarrow> exn option"

definition get_video_info :: "env \<Rightarrow> pystr \<Rightarrow> (pystr \<times> pystr \<times> pystr) option" where
  \<comment> \<open>title, description, url\<close>
  "get_video_info e vid =
     (case videos_list e vid of
        None \<Rightarrow> None
      | Some (vtitle, vdescription) \<Rightarrow>
          Some (vtitle, vdescription, S ''https://www.youtube.com/watch?v='' @ vid))"

section \<open>The inference extractor\<close>

definition k_transcript :: pystr where "k_transcript = S ''transcript''"
definition k_description :: pystr where "k_description = S ''description''"
definition k_comments :: pystr where "k_comments = S ''comments''"
definition k_dish_name :: pystr where "k_dish_name = S ''dish_name''"
definition k_ingredients :: pystr where "k_ingredients = S ''ingredients''"

text \<open>The Korean literals of the source, as code points.\<close>

definition src_transcript :: pystr where "src_transcript = [51088, 47561]"
definition src_description :: pystr where "src_description = [49444, 47749]"
definition src_comments :: pystr where "src_comments = [45843, 44544]"
definition src_none :: pystr where "src_none = [50630, 51020]"

definition prompt_head :: pystr where
  "prompt_head =
     [45796, 51020, 51008, 32, 34]"

definition prompt_mid :: pystr where
  "prompt_mid =
     [34, 46972, 45716, 32, 50836, 47532, 32, 50689, 49345, 51032, 32, 45936, 51060, 53552, 51077,
      45768, 45796, 46, 10, 51060, 32, 45936, 51060, 53552, 47484, 32, 51333, 54633, 32, 48516,
      49437, 54616, 50668, 32, 50836, 47532, 32, 51060, 47492, 44284, 32, 51116, 47308, 47484, 32,
      52628, 52636, 54616, 49464, 50836, 46, 10, 10]"

definition prompt_tail :: pystr where
  "prompt_tail =
     [10, 10, 44508, 52825, 58, 10, 49, 46, 32, 50836, 47532, 32, 51060, 47492, 51008, 32, 44036,
      45800, 47749, 47308, 54616, 44172, 10, 50, 46, 32, 51116, 47308, 45716, 32, 49788, 54364,
      47196, 47564, 32, 44396, 48516, 44, 32, 44277, 48177, 32, 50630, 51060, 10, 51, 46, 32,
      44592, 48376, 32, 51312, 48120, 47308, 44, 32, 50577, 45392, 32, 54252, 54632, 10, 52, 46,
      32, 45843, 44544, 50640, 49436, 32, 50616, 44553, 46108, 32, 51116, 47308, 46020, 32, 44256,
      47140, 10, 53, 46, 32, 74, 83, 79, 78, 32, 54805, 49885, 51004, 47196, 32, 51025, 45813, 10,
      10, 51025, 45813, 32, 54805, 49885, 58, 10, 123, 34, 100, 105, 115, 104, 95, 110, 97, 109,
      101, 34, 58, 32, 34, 50836, 47532, 51060, 47492, 34, 44, 32, 34, 105, 110, 103, 114, 101,
      100, 105, 101, 110, 116, 115, 34, 58, 32, 34, 51116, 47308, 49, 44, 51116, 47308, 50, 44,
      51116, 47308, 51, 34, 125, 10]"

definition truthy :: "pystr option \<Rightarrow> bool" where
  \<comment> \<open>the truth value of \<open>data_dict.get(key)\<close>: the key is present and its string is not empty\<close>
  "truthy v = (case v of None \<Rightarrow> False | Some s \<Rightarrow> s \<noteq> [])"

definition labelled :: "pystr \<Rightarrow> nat \<Rightarrow> pystr option \<Rightarrow> pystr list" where
  \<comment> \<open>\<open>f"label: {data_dict[key][:n]}"\<close>, appended when the slot is truthy\<close>
  "labelled label n v =
     (case v of None \<Rightarrow> [] | Some s \<Rightarrow> if s \<noteq> [] then [label @ [58, 32] @ take n s] else [])"

definition available_data :: "(pystr \<rightharpoonup> pystr) \<Rightarrow> pystr list" where
  "available_data data_dict =
     labelled src_transcript 2000 (data_dict k_transcript) @
     labelled src_description 1000 (data_dict k_description) @
     labelled src_comments 800 (data_dict k_comments)"

definition used_sources :: "(pystr \<rightharpoonup> pystr) \<Rightarrow> pystr list" where
  "used_sources data_dict =
     (if truthy (data_dict k_transcript) then [src_transcript] else []) @
     (if truthy (data_dict k_description) then [src_description] else []) @
     (if truthy (data_dict k_comments) then [src_comments] else [])"

definition build_prompt :: "pystr \<Rightarrow> pystr \<Rightarrow> pystr" where
  "build_prompt vtitle combined_text = prompt_head @ vtitle @ prompt_mid @ combined_text @ prompt_tail"

definition fence :: pystr where
  "fence = [96, 96, 96]"

definition strip_fence_open :: "pystr \<Rightarrow> pystr" where
  \<comment> \<open>\<open>re.sub(r'^```json?\s*', '', result)\<close>: the optional letter is the final \<open>n\<close>\<close>
  "strip_fence_open s =
     (if prefix (fence @ S ''jso'') s
      then (let r = drop 6 s;
                r' = (case r of [] \<Rightarrow> r | c # cs \<Rightarrow> if c = 110 then cs else r)
            in dropWhile is_space r')
      else s)"

definition strip_fence_close :: "pystr \<Rightarrow> pystr" where
  \<comment> \<open>\<open>re.sub(r'\s*```$', '', result)\<close>: \<open>$\<close> matches at the end and before a final newline\<close>
  "strip_fence_close s =
     (if suffix fence s then drop_while_end is_space (take (length s - 3) s)
      else if suffix (fence @ [10]) s
      then drop_while_end is_space (take (length s - 4) s) @ [10]
      else s)"

definition read_record :: "pystr \<Rightarrow> json \<Rightarrow> exn + (json \<times> pystr)" where
  \<comment> \<open>the two \<open>data.get\<close> calls, the join of a list-valued field and the clean-up;
      \<open>.get\<close> exists on a \<open>dict\<close> only, \<open>','.join\<close> and \<open>re.sub\<close> accept \<open>str\<close> only\<close>
  "read_record vtitle data =
     (case data of
        JObj items \<Rightarrow>
          (let dish = (case map_of items k_dish_name of None \<Rightarrow> JStr vtitle | Some v \<Rightarrow> v);
               ingr = (case map_of items k_ingredients of None \<Rightarrow> JStr [] | Some v \<Rightarrow> v)
           in case ingr of
                JArr xs \<Rightarrow>
                  (case those (map json_str xs) of
                     None \<Rightarrow> Inl TypeError
                   | Some ss \<Rightarrow> Inr (dish, normalize_ingredients (py_join [comma] ss)))
              | JStr s \<Rightarrow> Inr (dish, normalize_ingredients s)
              | _ \<Rightarrow> Inl TypeError)
      | _ \<Rightarrow> Inl AttributeError)"

definition model_answer :: "env \<Rightarrow> (pystr \<rightharpoonup> pystr) \<Rightarrow> pystr \<Rightarrow> exn + json" where
  \<comment> \<open>from \<open>combined_text\<close> to \<open>json.loads(result)\<close>; \<open>Inl\<close> is a raised exception\<close>
  "model_answer e data_dict vtitle =
     (case generate_content e (build_prompt vtitle (py_join [10, 10] (available_data data_dict))) of
        Raises \<Rightarrow> Inl ServiceError
      | Text t \<Rightarrow>
          (case json_loads e (strip_fence_close (strip_fence_open (py_strip t))) of
             None \<Rightarrow> Inl JSONDecodeError
           | Some data \<Rightarrow> Inr data))"

definition unwrap_list :: "json \<Rightarrow> json option" where
  \<comment> \<open>\<open>if isinstance(data, list)\<close>: the first element, and \<open>None\<close> for the early return
      on an empty list; any other value is kept\<close>
  "unwrap_list data =
     (case data of
        JArr [] \<Rightarrow> None
      | JArr (first # _) \<Rightarrow> Some first
      | _ \<Rightarrow> Some data)"

definition analyze_try :: "env \<Rightarrow> (pystr \<rightharpoonup> pystr) \<Rightarrow> pystr \<Rightarrow> exn + (json \<times> pystr \<times> pystr list)" where
  \<comment> \<open>the body of the \<open>try\<close> block of \<open>analyze_with_gemini\<close>\<close>
  "analyze_try e data_dict vtitle =
     (if available_data data_dict = [] then Inr (JStr vtitle, [], [])
      else
        case model_answer e data_dict vtitle of
          Inl x \<Rightarrow> Inl x
        | Inr data \<Rightarrow>
            (case unwrap_list data of
               None \<Rightarrow> Inr (JStr vtitle, [], [])
             | Some d \<Rightarrow>
                 (case read_record vtitle d of
                    Inl x \<Rightarrow> Inl x
                  | Inr (dish, ingr) \<Rightarrow>
                      Inr (dish, ingr, used_sources data_dict))))"

definition analyze_with_gemini :: "env \<Rightarrow> (pystr \<rightharpoonup> pystr) \<Rightarrow> pystr \<Rightarrow> json \<times> pystr \<times> pystr list" where
  \<comment> \<open>both \<open>except\<close> clauses return \<open>title, "", []\<close>\<close>
  "analyze_with_gemini e data_dict vtitle =
     (case analyze_try e data_dict vtitle of
        Inl x \<Rightarrow> (JStr vtitle, [], [])
      | Inr r \<Rightarrow> r)"

section \<open>The recipe store and the status map\<close>

text \<open>
  The store is the SQLite database that \<open>get_db_connection\<close> opens when no
  \<open>DATABASE_URL\<close> is set; opening it and reading from it are taken not to fail except as
  written below. The table is the list of its rows in insertion order, which is the order
  in which a scan returns them.

  Module \<open>sqlite3\<close> binds a \<open>str\<close> parameter as its UTF-8 encoding: a lone surrogate
  cannot be encoded, more than \<open>INT_MAX\<close> bytes are refused by the module and more than
  \<open>10^9\<close> bytes by the engine. It binds \<open>None\<close>, \<open>bool\<close>, \<open>float\<close> and an \<open>int\<close> of 64
  bits, and no \<open>list\<close> or \<open>dict\<close>. The parameters are bound from left to right, and the
  first one that fails raises.
\<close>

definition surrogate :: "nat \<Rightarrow> bool" where
  "surrogate c \<longleftrightarrow> 55296 \<le> c \<and> c \<le> 57343"

definition utf8_size :: "nat \<Rightarrow> nat" where
  "utf8_size c = (if c < 128 then 1 else if c < 2048 then 2 else if c < 65536 then 3 else 4)"

definition utf8_len :: "pystr \<Rightarrow> nat" where
  "utf8_len s = sum_list (map utf8_size s)"

definition bind_text :: "pystr \<Rightarrow> exn option" where
  "bind_text s =
     (if \<exists>c \<in> set s. surrogate c then Some UnicodeEncodeError
      else if utf8_len s > 2147483647 then Some OverflowError
      else if utf8_len s > 1000000000 then Some DataError
      else None)"

definition bind_value :: "json \<Rightarrow> exn option" where
  "bind_value v =
     (case v of
        JStr s \<Rightarrow> bind_text s
      | JInt i \<Rightarrow> if - (2 ^ 63) \<le> i \<and> i < 2 ^ 63 then None else Some OverflowError
      | JArr _ \<Rightarrow> Some ProgrammingError
      | JObj _ \<Rightarrow> Some ProgrammingError
      | _ \<Rightarrow> None)"

fun first_error :: "exn option list \<Rightarrow> exn option" where
  "first_error [] = None"
| "first_error (Some x # _) = Some x"
| "first_error (None # rest) = first_error rest"

definition bind_row :: "recipe \<Rightarrow> exn option" where
  \<comment> \<open>the seven parameters of the \<open>INSERT\<close>, in the order of the tuple\<close>
  "bind_row r =
     first_error
       [bind_text (video_id r), bind_text (title r), bind_text (description r),
        bind_text (ingredients r), bind_value (dish_name r), bind_text (url r),
        bind_text (data_sources r)]"

record run_status =
  current :: nat
  total :: nat
  percentage :: nat
  status :: pystr
  video_title :: pystr
  timestamp :: "real option"
  completed :: "bool option"
  success_count :: "nat option"

text \<open>
  One entry of \<open>processing_status\<close> is a dictionary: \<open>update_status\<close> writes six keys, the
  batch driver adds \<open>completed\<close> and \<open>success_count\<close>, and the default of \<open>get_status\<close> has
  \<open>completed\<close> but no \<open>timestamp\<close>; a key that may be absent is an option.
\<close>

record world =
  recipes :: "recipe list"
  processing_status :: "pystr \<rightharpoonup> run_status"


definition check_if_video_exists :: "recipe list \<Rightarrow> pystr \<Rightarrow> exn + bool" where
  \<comment> \<open>\<open>SELECT COUNT(*) FROM recipes WHERE video_id = ?\<close>, then \<open>> 0\<close>; the comparison is
      that of the whole strings\<close>
  "check_if_video_exists rs vid =
     (case bind_text vid of
        Some x \<Rightarrow> Inl x
      | None \<Rightarrow> Inr (length (filter (\<lambda>r. video_id r = vid) rs) > 0))"

definition insert_recipe :: "env \<Rightarrow> recipe \<Rightarrow> recipe list \<Rightarrow> exn + recipe list" where
  \<comment> \<open>the \<open>INSERT\<close>; column \<open>video_id\<close> is \<open>UNIQUE\<close>\<close>
  "insert_recipe e r rs =
     (case bind_row r of
        Some x \<Rightarrow> Inl x
      | None \<Rightarrow>
          (case db_failure e r of
             Some x \<Rightarrow> Inl x
           | None \<Rightarrow>
               if \<exists>r' \<in> set rs. video_id r' = video_id r then Inl IntegrityError
               else Inr (rs @ [r])))"

definition update_status :: "env \<Rightarrow> pystr \<Rightarrow> nat \<Rightarrow> nat \<Rightarrow> pystr \<Rightarrow> pystr \<Rightarrow> world \<Rightarrow> world" where
  "update_status e session_id cur tot status_text vtitle w =
     w\<lparr>processing_status := (processing_status w)(session_id \<mapsto>
        \<lparr>current = cur,
         total = tot,
         percentage = (if tot > 0 then int_pct e cur tot else 0),
         status = status_text,
         video_title = vtitle,
         timestamp = Some (time_time e),
         completed = None,
         success_count = None\<rparr>)\<rparr>"

definition get_status :: "world \<Rightarrow> pystr \<Rightarrow> run_status" where
  "get_status w session_id =
     (case processing_status w session_id of
        Some st \<Rightarrow> st
      | None \<Rightarrow>
          \<lparr>current = 0,
           total = 0,
           percentage = 0,
           status = [51456, 48708, 32, 51473, 46, 46, 46],
           video_title = [],
           timestamp = None,
           completed = Some False,
           success_count = None\<rparr>)"

section \<open>The item processor and the batch driver\<close>

datatype outcome =
    Skipped pystr
  | Failed pystr "pystr option"
  | Success pystr pystr json "pystr list"

fun outcome_status :: "outcome \<Rightarrow> pystr" where
  "outcome_status (Skipped _) = S ''skipped''"
| "outcome_status (Failed _ _) = S ''error''"
| "outcome_status (Success _ _ _ _) = S ''success''"

fun outcome_video_id :: "outcome \<Rightarrow> pystr" where
  "outcome_video_id (Skipped v) = v"
| "outcome_video_id (Failed v _) = v"
| "outcome_video_id (Success v _ _ _) = v"

definition st_already :: pystr where
  "st_already = [51060, 48120, 32, 52376, 47532, 46108, 32, 50689, 49345]"
definition st_info :: pystr where
  "st_info = [50689, 49345, 32, 51221, 48372, 32, 44032, 51256, 50724, 45716, 32, 51473, 46, 46, 46]"
definition st_transcript :: pystr where
  "st_transcript = [51088, 47561, 32, 54869, 51064, 32, 51473, 46, 46, 46]"
definition st_comments :: pystr where
  "st_comments = [45843, 44544, 32, 49688, 51665, 32, 51473, 46, 46, 46]"
definition st_analysis :: pystr where
  "st_analysis = [65, 73, 32, 48516, 49437, 32, 51473, 46, 46, 46]"
definition st_done :: pystr where
  "st_done = [50756, 47308, 33]"
definition st_error :: pystr where
  "st_error = [50724, 47448, 58, 32]"

definition collect :: "pystr \<Rightarrow> pystr option \<Rightarrow> (pystr \<rightharpoonup> pystr) \<Rightarrow> (pystr \<rightharpoonup> pystr)" where
  \<comment> \<open>\<open>if value: data_dict[key] = value\<close>\<close>
  "collect key v data_dict = (if truthy v then data_dict(key \<mapsto> the v) else data_dict)"

definition collect_data :: "env \<Rightarrow> pystr \<Rightarrow> pystr \<Rightarrow> (pystr \<rightharpoonup> pystr)" where
  \<comment> \<open>\<open>data_dict\<close> after the three \<open>if\<close> statements of the collection stage\<close>
  "collect_data e vid vdescription =
     collect k_comments (get_video_comments e vid)
       (collect k_description (Some vdescription)
          (collect k_transcript (get_video_transcript e vid) Map.empty))"

definition make_row :: "env \<Rightarrow> pystr \<Rightarrow> pystr \<Rightarrow> pystr \<Rightarrow> pystr \<Rightarrow> recipe" where
  \<comment> \<open>the tuple of the \<open>INSERT\<close>; \<open>if not ingredients: ingredients = ""\<close> changes nothing,
      the extractor returning a string\<close>
  "make_row e vid vtitle vdescription video_url =
     (let (dish, ingr, sources) = analyze_with_gemini e (collect_data e vid vdescription) vtitle;
          sources_str = (if sources \<noteq> [] then py_join [comma] sources else src_none)
      in \<lparr>video_id = vid, title = vtitle, description = vdescription,
          ingredients = ingr, dish_name = dish, url = video_url,
          data_sources = sources_str\<rparr>)"

definition process_single_video ::
  "env \<Rightarrow> pystr \<Rightarrow> pystr \<Rightarrow> nat \<Rightarrow> nat \<Rightarrow> world \<Rightarrow> exn + (outcome \<times> world)" where
  \<comment> \<open>\<open>Inl\<close> is an exception that leaves the function: the existence check stands before
      the \<open>try\<close>. Inside the \<open>try\<close> only the \<open>INSERT\<close> can raise.\<close>
  "process_single_video e vid session_id current_index total_videos w =
     (case check_if_video_exists (recipes w) vid of
        Inl x \<Rightarrow> Inl x
      | Inr True \<Rightarrow>
          Inr (Skipped vid,
               update_status e session_id current_index total_videos st_already [] w)
      | Inr False \<Rightarrow>
          (let w1 = update_status e session_id current_index total_videos st_info [] w in
           case get_video_info e vid of
             None \<Rightarrow> Inr (Failed vid None, w1)
           | Some (vtitle, vdescription, video_url) \<Rightarrow>
               (let w2 = update_status e session_id current_index total_videos st_transcript vtitle w1;
                    w3 = update_status e session_id current_index total_videos st_comments vtitle w2;
                    w4 = update_status e session_id current_index total_videos st_analysis vtitle w3;
                    row = make_row e vid vtitle vdescription video_url;
                    sources = snd (snd (analyze_with_gemini e (collect_data e vid vdescription) vtitle))
                in case insert_recipe e row (recipes w4) of
                     Inl x \<Rightarrow>
                       Inr (Failed vid (Some (exn_text e x)),
                            update_status e session_id current_index total_videos
                              (st_error @ take 30 (exn_text e x)) [] w4)
                   | Inr rs \<Rightarrow>
                       Inr (Success vid vtitle (dish_name row) sources,
                            update_status e session_id current_index total_videos st_done vtitle
                              (w4\<lparr>recipes := rs\<rparr>)))))"




section \<open>The recommendation matcher\<close>

text \<open>
  \<open>LIKE\<close> as SQLite evaluates it with its default settings. The engine reads the pattern
  and the text as C strings, up to the first NUL character. In what it reads, \<open>%\<close>
  matches any run of characters, \<open>_\<close> matches any one character, and every other
  character of the pattern matches itself, the 26 ASCII letters without regard to case.
  There is no escape character unless the statement names one, and the statement of the
  source names none. A pattern of more than 50000 bytes makes the operator raise when it
  is evaluated.
\<close>

definition percent :: nat where
  "percent = 37"

definition underscore :: nat where
  "underscore = 95"

definition sql_lower :: "nat \<Rightarrow> nat" where
  "sql_lower c = (if 65 \<le> c \<and> c \<le> 90 then c + 32 else c)"

fun pattern_compare :: "pystr \<Rightarrow> pystr \<Rightarrow> bool" where
  \<comment> \<open>pattern, then text; both without NUL\<close>
  "pattern_compare [] t = (t = [])"
| "pattern_compare (p # ps) [] = (p = percent \<and> pattern_compare ps [])"
| "pattern_compare (p # ps) (c # cs) =
     (if p = percent then pattern_compare ps (c # cs) \<or> pattern_compare (p # ps) cs
      else (p = underscore \<or> sql_lower p = sql_lower c) \<and> pattern_compare ps cs)"

definition c_string :: "pystr \<Rightarrow> pystr" where
  "c_string s = takeWhile (\<lambda>c. c \<noteq> 0) s"

definition like :: "pystr \<Rightarrow> pystr \<Rightarrow> bool" where
  \<comment> \<open>\<open>like pattern text\<close> is the truth value of \<open>text LIKE pattern\<close>\<close>
  "like pattern text = pattern_compare (c_string pattern) (c_string text)"

definition like_term :: "pystr \<Rightarrow> pystr \<Rightarrow> exn + bool" where
  \<comment> \<open>one evaluation of \<open>ingredients LIKE ?\<close>\<close>
  "like_term pattern text =
     (if utf8_len pattern > 50000 then Inl OperationalError else Inr (like pattern text))"

fun where_clause :: "pystr list \<Rightarrow> pystr \<Rightarrow> exn + bool" where
  \<comment> \<open>\<open>... OR ... OR ...\<close> on one row: from left to right, up to the first term that is
      true\<close>
  "where_clause [] text = Inr False"
| "where_clause (p # ps) text =
     (case like_term p text of
        Inl x \<Rightarrow> Inl x
      | Inr True \<Rightarrow> Inr True
      | Inr False \<Rightarrow> where_clause ps text)"

fun scan_rows :: "pystr list \<Rightarrow> recipe list \<Rightarrow> exn + recipe list" where
  "scan_rows ps [] = Inr []"
| "scan_rows ps (r # rs) =
     (case where_clause ps (ingredients r) of
        Inl x \<Rightarrow> Inl x
      | Inr b \<Rightarrow>
          (case scan_rows ps rs of
             Inl x \<Rightarrow> Inl x
           | Inr out \<Rightarrow> Inr (if b then r # out else out)))"

definition select_like :: "pystr list \<Rightarrow> recipe list \<Rightarrow> exn + recipe list" where
  \<comment> \<open>\<open>SELECT * FROM recipes WHERE ingredients LIKE ? OR ...\<close> with its parameters. With
      no term the statement ends after \<open>WHERE\<close>, with 1000 terms or more the expression is
      too deep: the engine rejects both when it compiles the statement. Then the
      parameters are bound, then the rows are scanned.\<close>
  "select_like values rs =
     (if values = [] then Inl OperationalError
      else if length values \<ge> 1000 then Inl OperationalError
      else
        case first_error (map bind_text values) of
          Some x \<Rightarrow> Inl x
        | None \<Rightarrow> scan_rows values rs)"

definition token_list :: "pystr \<Rightarrow> pystr list" where
  \<comment> \<open>\<open>i.strip() for i in text.split(',') if i.strip()\<close>\<close>
  "token_list text = filter (\<lambda>t. t \<noteq> []) (map py_strip (py_split comma text))"

definition parse_tokens :: "pystr \<Rightarrow> pystr set" where
  \<comment> \<open>\<open>set(i.strip() for i in text.split(',') if i.strip())\<close>\<close>
  "parse_tokens text = set (token_list text)"

text \<open>
  The order in which Python iterates over a set is not fixed by the program. Here it is
  given by a ranking of the strings: every ranking gives an order of the tokens without
  repetition, and every such order comes from some ranking.
\<close>

definition iteration_order :: "(pystr \<Rightarrow> nat) \<Rightarrow> pystr list \<Rightarrow> pystr list" where
  "iteration_order rank tokens = sort_key rank (remdups tokens)"

definition like_pattern :: "pystr \<Rightarrow> pystr" where
  \<comment> \<open>\<open>f"%{ing}%"\<close>\<close>
  "like_pattern ing = [percent] @ ing @ [percent]"

text \<open>
  \<open>f"{match_rate:.1f}"\<close>, in tenths: the nearest tenth of \<open>matched / all * 100\<close>. The source
  computes the quotient in binary floating point, so where the exact value lies halfway
  between two tenths the rounding error decides the direction: \<open>tie_up matched all\<close>
  tells whether the source rounds up there.
\<close>

definition rate_tenths :: "(nat \<Rightarrow> nat \<Rightarrow> bool) \<Rightarrow> nat \<Rightarrow> nat \<Rightarrow> nat" where
  "rate_tenths tie_up m n =
     (let q = (1000 * m) div n; r = (1000 * m) mod n
      in if 2 * r < n then q
         else if 2 * r > n then Suc q
         else if tie_up m n then Suc q else q)"

record recommendation =
  rec_title :: pystr
  rec_url :: pystr
  rec_dish_name :: json
  match_rate :: nat
  matched :: "pystr set"
  missing :: "pystr set"
  all_ingredients :: "pystr set"
  sources :: pystr

definition score :: "(nat \<Rightarrow> nat \<Rightarrow> bool) \<Rightarrow> pystr set \<Rightarrow> recipe \<Rightarrow> recommendation" where
  \<comment> \<open>the body of the loop over the selected rows; \<open>match_rate\<close> is in tenths of a percent,
      the three sets are kept as sets (the source joins them in iteration order), and
      \<open>data_sources\<close> is never \<open>NULL\<close>\<close>
  "score tie_up user_ingredients row =
     (let recipe_ings = parse_tokens (ingredients row)
      in \<lparr>rec_title = title row,
          rec_url = url row,
          rec_dish_name = dish_name row,
          match_rate = (if recipe_ings \<noteq> {}
                        then rate_tenths tie_up (card (user_ingredients \<inter> recipe_ings)) (card recipe_ings)
                        else 0),
          matched = user_ingredients \<inter> recipe_ings,
          missing = recipe_ings - user_ingredients,
          all_ingredients = recipe_ings,
          sources = data_sources row\<rparr>)"

datatype page =
    Message pystr
  | Recipes "recommendation list"
  | ServerError exn

definition msg_enter :: pystr where
  "msg_enter = [51116, 47308, 47484, 32, 51077, 47141, 54644, 51452, 49464, 50836, 46]"

definition msg_no_match :: pystr where
  "msg_no_match =
     [54644, 45817, 32, 51116, 47308, 47196, 32, 47564, 46308, 32, 49688, 32, 51080, 45716, 32,
      47112, 49884, 54588, 47484, 32, 52286, 51012, 32, 49688, 32, 50630, 49845, 45768, 45796, 46]"

definition query_values :: "(pystr \<Rightarrow> nat) \<Rightarrow> pystr \<Rightarrow> pystr list" where
  \<comment> \<open>\<open>values\<close>: one pattern for each token, in the iteration order of the set\<close>
  "query_values rank text = map like_pattern (iteration_order rank (token_list text))"

definition recommend_recipe ::
  "(pystr \<Rightarrow> nat) \<Rightarrow> (nat \<Rightarrow> nat \<Rightarrow> bool) \<Rightarrow> recipe list \<Rightarrow> pystr \<Rightarrow> page" where
  \<comment> \<open>\<open>recipes.sort(key=lambda x: float(x['match_rate']), reverse=True)\<close> is stable; an
      exception of the query is not caught\<close>
  "recommend_recipe rank tie_up rs user_ingredients_input =
     (if user_ingredients_input = [] then Message msg_enter
      else
        (let user_ingredients = parse_tokens user_ingredients_input in
         case select_like (query_values rank user_ingredients_input) rs of
           Inl x \<Rightarrow> ServerError x
         | Inr results \<Rightarrow>
             if results = [] then Message msg_no_match
             else Recipes (sort_key (\<lambda>x. - int (match_rate x))
                             (map (score tie_up user_ingredients) results))))"


fun no_double :: "pystr \<Rightarrow> bool" where
  \<comment> \<open>no two commas side by side\<close>
  "no_double (x # y # ys) = (\<not> (x = comma \<and> y = comma) \<and> no_double (y # ys))"
| "no_double _ = True"

section \<open>Concrete environments and rows\<close>

text \<open>
  An environment that answers every request the same way, a row with given identifier
  and ingredients, and the empty world: the inputs at which the theorems below are
  evaluated.
\<close>

definition env_of :: "(pystr \<times> pystr) option \<Rightarrow> pystr option \<Rightarrow> response \<Rightarrow> json option \<Rightarrow> env" where
  "env_of info captions answer parsed =
     \<lparr>videos_list = (\<lambda>_. info),
      get_video_transcript = (\<lambda>_. captions),
      get_video_comments = (\<lambda>_. None),
      generate_content = (\<lambda>_. answer),
      json_loads = (\<lambda>_. parsed),
      exn_text = (\<lambda>_. []),
      time_time = 0,
      int_pct = (\<lambda>c t. (100 * c) div t),
      db_failure = (\<lambda>_. None)\<rparr>"

definition row_of :: "pystr \<Rightarrow> pystr \<Rightarrow> recipe" where
  "row_of vid ingr =
     \<lparr>video_id = vid, title = vid, description = [], ingredients = ingr,
      dish_name = JStr vid, url = [], data_sources = src_none\<rparr>"

definition wrapped_example :: json where
  \<comment> \<open>\<open>[{"dish_name": "X", "ingredients": ["a", "b"]}]\<close>\<close>
  "wrapped_example =
     JArr [JObj [(S ''dish_name'', JStr (S ''X'')),
                 (S ''ingredients'', JArr [JStr (S ''a''), JStr (S ''b'')])]]"

definition env_good :: env where
  \<comment> \<open>title and description found, captions found, the answer parses to \<open>wrapped_example\<close>\<close>
  "env_good =
     env_of (Some (S ''T'', S ''desc'')) (Some (S ''cap'')) (Text (S ''{}'')) (Some wrapped_example)"

definition env_unparsed :: env where
  \<comment> \<open>as \<open>env_good\<close>, but \<open>json.loads\<close> rejects the answer\<close>
  "env_unparsed =
     env_of (Some (S ''T'', S ''desc'')) (Some (S ''cap'')) (Text (S ''no json'')) None"

definition env_missing :: env where
  \<comment> \<open>the video service has no item for the identifier\<close>
  "env_missing = env_of None None Raises None"




definition env_listdish :: env where
  \<comment> \<open>as \<open>env_good\<close>, but the answer is \<open>{"dish_name": ["X"], "ingredients": "a"}\<close>\<close>
  "env_listdish =
     env_of (Some (S ''T'', S ''desc'')) (Some (S ''cap'')) (Text (S ''{}''))
       (Some (JObj [(S ''dish_name'', JArr [JStr (S ''X'')]), (S ''ingredients'', JStr (S ''a''))]))"



definition empty_world :: world where
  "empty_world = \<lparr>recipes = [], processing_status = Map.empty\<rparr>"

section \<open>Properties of the normalisation\<close>

lemma set_drop_while_end: "set (drop_while_end P s) \<subseteq> set s"
  unfolding drop_while_end_def using set_dropWhileD by fastforce

lemma set_collapse_commas: "set (collapse_commas s) \<subseteq> set s"
  by (induction s rule: collapse_commas.induct) (auto simp: comma_def dest: set_dropWhileD)

lemma dropWhile_Cons_not: "dropWhile P xs = y # ys \<Longrightarrow> \<not> P y"
  using hd_dropWhile[of P xs] by auto

lemma no_double_collapse_commas: "no_double (collapse_commas s)"
proof (induction s rule: collapse_commas.induct)
  case 1 show ?case by simp
next
  case (2 x xs)
  show ?case
  proof (cases "x = comma")
    case True
    show ?thesis
    proof (cases "dropWhile (\<lambda>c. c = comma) xs")
      case Nil with True show ?thesis by (simp del: dropWhile_eq_Nil_conv)
    next
      case (Cons y ys)
      then have "y \<noteq> comma" using dropWhile_Cons_not by fast
      with True Cons 2(1) show ?thesis by simp
    qed
  next
    case False
    with 2(2) show ?thesis by (cases "collapse_commas xs") auto
  qed
qed

lemma no_double_nth:
  "no_double xs \<longleftrightarrow> (\<forall>i. Suc i < length xs \<longrightarrow> \<not> (xs ! i = comma \<and> xs ! Suc i = comma))"
proof (induction xs rule: no_double.induct)
  case (1 x y ys)
  show ?case
  proof
    assume a: "no_double (x # y # ys)"
    show "\<forall>i. Suc i < length (x # y # ys) \<longrightarrow> \<not> ((x # y # ys) ! i = comma \<and> (x # y # ys) ! Suc i = comma)"
    proof (intro allI impI)
      fix i assume "Suc i < length (x # y # ys)"
      with a 1 show "\<not> ((x # y # ys) ! i = comma \<and> (x # y # ys) ! Suc i = comma)"
        by (cases i) auto
    qed
  next
    assume a: "\<forall>i. Suc i < length (x # y # ys) \<longrightarrow> \<not> ((x # y # ys) ! i = comma \<and> (x # y # ys) ! Suc i = comma)"
    then have "\<not> (x = comma \<and> y = comma)" by (metis length_Cons nth_Cons_0 nth_Cons_Suc zero_less_Suc Suc_less_eq)
    moreover have "\<forall>i. Suc i < length (y # ys) \<longrightarrow> \<not> ((y # ys) ! i = comma \<and> (y # ys) ! Suc i = comma)"
    proof (intro allI impI)
      fix i assume "Suc i < length (y # ys)"
      then have "Suc (Suc i) < length (x # y # ys)" by simp
      with a have "\<not> ((x # y # ys) ! Suc i = comma \<and> (x # y # ys) ! Suc (Suc i) = comma)" by blast
      then show "\<not> ((y # ys) ! i = comma \<and> (y # ys) ! Suc i = comma)" by simp
    qed
    ultimately show "no_double (x # y # ys)" using 1 by simp
  qed
qed simp_all

lemma no_double_drop: "no_double xs \<Longrightarrow> no_double (drop k xs)"
  unfolding no_double_nth by (auto simp: add.commute)

lemma no_double_take: "no_double xs \<Longrightarrow> no_double (take k xs)"
  unfolding no_double_nth by auto

lemma drop_while_end_take:
  "drop_while_end P xs = take (length xs - length (takeWhile P (rev xs))) xs"
  unfolding drop_while_end_def by (simp add: dropWhile_eq_drop rev_drop)

lemma no_double_strip_char: "no_double xs \<Longrightarrow> no_double (strip_char c xs)"
  unfolding strip_char_def drop_while_end_take dropWhile_eq_drop
  by (intro no_double_take no_double_drop)

lemma strip_char_last: "strip_char c xs \<noteq> [] \<Longrightarrow> last (strip_char c xs) \<noteq> c"
  unfolding strip_char_def drop_while_end_def
  using hd_dropWhile[of "\<lambda>x. x = c" "rev (dropWhile (\<lambda>x. x = c) xs)"]
  by (simp add: last_rev del: dropWhile_eq_Nil_conv)

lemma strip_char_hd: "strip_char c xs \<noteq> [] \<Longrightarrow> hd (strip_char c xs) \<noteq> c"
proof -
  assume ne: "strip_char c xs \<noteq> []"
  let ?d = "dropWhile (\<lambda>x. x = c) xs"
  obtain k where k: "strip_char c xs = take k ?d"
    unfolding strip_char_def drop_while_end_take by blast
  from ne k have "0 < k" "?d \<noteq> []" by (auto intro: gr0I)
  then have "hd (take k ?d) = hd ?d" by (simp add: hd_take)
  moreover have "hd ?d \<noteq> c" using hd_dropWhile[OF \<open>?d \<noteq> []\<close>] by simp
  ultimately show ?thesis using k by simp
qed

text \<open>
  Claim C5. Whatever string reaches the clean-up of the extractor (a string-valued field,
  or a list-valued field joined with commas), the result has no white-space character, no
  two commas side by side, and neither starts nor ends with a comma; the input
  \<open>"a, b ,, a"\<close> becomes \<open>"a,b,a"\<close>.
\<close>

theorem normalize_ingredients_clean:
  "(\<forall>c \<in> set (normalize_ingredients s). \<not> is_space c) \<and>
   (\<forall>i. Suc i < length (normalize_ingredients s) \<longrightarrow>
      \<not> (normalize_ingredients s ! i = comma \<and> normalize_ingredients s ! Suc i = comma)) \<and>
   (normalize_ingredients s \<noteq> [] \<longrightarrow>
      hd (normalize_ingredients s) \<noteq> comma \<and> last (normalize_ingredients s) \<noteq> comma) \<and>
   normalize_ingredients (S ''a, b ,, a'') = S ''a,b,a''"
proof (intro conjI)
  have "set (normalize_ingredients s) \<subseteq> set (remove_whitespace s)"
    unfolding normalize_ingredients_def strip_char_def
    using set_drop_while_end set_collapse_commas set_dropWhileD by fast
  then show "\<forall>c \<in> set (normalize_ingredients s). \<not> is_space c"
    by (auto simp: remove_whitespace_def)
next
  have "no_double (normalize_ingredients s)"
    unfolding normalize_ingredients_def
    by (rule no_double_strip_char) (rule no_double_collapse_commas)
  then show "\<forall>i. Suc i < length (normalize_ingredients s) \<longrightarrow>
      \<not> (normalize_ingredients s ! i = comma \<and> normalize_ingredients s ! Suc i = comma)"
    by (simp only: no_double_nth)
next
  show "normalize_ingredients s \<noteq> [] \<longrightarrow>
      hd (normalize_ingredients s) \<noteq> comma \<and> last (normalize_ingredients s) \<noteq> comma"
    unfolding normalize_ingredients_def using strip_char_hd strip_char_last by blast
next
  show "normalize_ingredients (S ''a, b ,, a'') = S ''a,b,a''"
    by (simp add: normalize_ingredients_def remove_whitespace_def strip_char_def comma_def
        is_space_def drop_while_end_def)
qed

theorem normalize_ingredients_clean_witness:
  "normalize_ingredients (S ''a, b ,, a'') = S ''a,b,a'' \<and>
   list_all (\<lambda>c. \<not> is_space c) (normalize_ingredients (S '' x ,,, y z,'')) \<and>
   normalize_ingredients (S '' x ,,, y z,'') \<noteq> [] \<and>
   hd (normalize_ingredients (S '' x ,,, y z,'')) \<noteq> comma \<and>
   last (normalize_ingredients (S '' x ,,, y z,'')) \<noteq> comma \<and>
   Suc 1 < length (normalize_ingredients (S '' x ,,, y z,'')) \<and>
   \<not> (normalize_ingredients (S '' x ,,, y z,'') ! 1 = comma \<and>
      normalize_ingredients (S '' x ,,, y z,'') ! Suc 1 = comma)"
proof -
  have v: "normalize_ingredients (S '' x ,,, y z,'') = S ''x,yz''"
    by (simp add: normalize_ingredients_def remove_whitespace_def strip_char_def comma_def
        is_space_def drop_while_end_def)
  have n: "normalize_ingredients (S '' x ,,, y z,'') \<noteq> []" and l: "Suc 1 < length (normalize_ingredients (S '' x ,,, y z,''))"
    unfolding v by simp_all
  from normalize_ingredients_clean [of "S '' x ,,, y z,''"] n l
  show ?thesis by (simp add: list_all_iff)
qed

section \<open>Reading the status of a run\<close>

text \<open>
  Claim C10. For a run identifier that is not a key of the status map, \<open>get_status\<close>
  returns the default record: current 0, total 0, percentage 0, the status text
  "preparing" (in Korean), an empty video title, and completed false.
\<close>

theorem get_status_default:
  "session_id \<notin> dom (processing_status w) \<Longrightarrow>
     current (get_status w session_id) = 0 \<and>
     total (get_status w session_id) = 0 \<and>
     percentage (get_status w session_id) = 0 \<and>
     status (get_status w session_id) = [51456, 48708, 32, 51473, 46, 46, 46] \<and>
     video_title (get_status w session_id) = [] \<and>
     completed (get_status w session_id) = Some False"
  by (auto simp: get_status_def dom_def)

theorem get_status_default_witness:
  "S ''run'' \<notin> dom (processing_status empty_world) \<and>
   current (get_status empty_world (S ''run'')) = 0 \<and>
   total (get_status empty_world (S ''run'')) = 0 \<and>
   percentage (get_status empty_world (S ''run'')) = 0 \<and>
   video_title (get_status empty_world (S ''run'')) = [] \<and>
   completed (get_status empty_world (S ''run'')) = Some False"
proof -
  have h: "S ''run'' \<notin> dom (processing_status empty_world)"
    by (simp add: empty_world_def)
  from get_status_default [OF h] h show ?thesis by simp
qed

section \<open>Properties of the inference extractor\<close>

lemma analyze_with_gemini_cases:
  "analyze_with_gemini e dd t = (JStr t, [], []) \<or>
   (\<exists>d i. analyze_with_gemini e dd t = (d, i, used_sources dd))"
  unfolding analyze_with_gemini_def analyze_try_def
  by (auto split: sum.splits option.splits prod.splits)

lemma labelled_empty: "labelled l n v = [] \<longleftrightarrow> \<not> truthy v"
  by (auto simp: labelled_def truthy_def split: option.splits)

lemma available_data_empty: "available_data dd = [] \<longleftrightarrow> used_sources dd = []"
  by (simp add: available_data_def used_sources_def labelled_empty)

lemma available_transcript: "available_data (Map.empty(k_transcript \<mapsto> S ''x'')) \<noteq> []"
  by (simp add: available_data_def labelled_def)

lemma read_record_example:
  "read_record t (JObj [(S ''dish_name'', JStr (S ''X'')),
                 (S ''ingredients'', JArr [JStr (S ''a''), JStr (S ''b'')])]) = Inr (JStr (S ''X''), S ''a,b'')"
  by (simp add: read_record_def k_dish_name_def k_ingredients_def normalize_ingredients_def
        remove_whitespace_def strip_char_def comma_def is_space_def drop_while_end_def)

text \<open>
  Claim C7. The extractor never raises past its boundary. Whenever the body of its
  \<open>try\<close> block raises (the call of the model, \<open>json.loads\<close>, \<open>.get\<close> on a value that is
  not a dictionary, the join or the clean-up of a field that is not text), the function
  returns the title, an empty ingredient string and an empty source list; and every
  result is either that triple or a record together with the sources computed from the
  slots.
\<close>

theorem analyze_with_gemini_never_raises:
  "(analyze_try e dd t = Inl x \<longrightarrow> analyze_with_gemini e dd t = (JStr t, [], [])) \<and>
   (available_data dd \<noteq> [] \<and>
    generate_content e (build_prompt t (py_join [10, 10] (available_data dd))) = Raises \<longrightarrow>
      analyze_with_gemini e dd t = (JStr t, [], [])) \<and>
   (available_data dd \<noteq> [] \<and>
    generate_content e (build_prompt t (py_join [10, 10] (available_data dd))) = Text r \<and>
    json_loads e (strip_fence_close (strip_fence_open (py_strip r))) = None \<longrightarrow>
      analyze_with_gemini e dd t = (JStr t, [], [])) \<and>
   (analyze_with_gemini e dd t = (JStr t, [], []) \<or>
    (\<exists>d i. analyze_with_gemini e dd t = (d, i, used_sources dd)))"
proof (intro conjI impI)
  assume "analyze_try e dd t = Inl x"
  then show "analyze_with_gemini e dd t = (JStr t, [], [])"
    by (simp add: analyze_with_gemini_def)
next
  assume "available_data dd \<noteq> [] \<and>
    generate_content e (build_prompt t (py_join [10, 10] (available_data dd))) = Raises"
  then show "analyze_with_gemini e dd t = (JStr t, [], [])"
    by (simp add: analyze_with_gemini_def analyze_try_def model_answer_def)
next
  assume "available_data dd \<noteq> [] \<and>
    generate_content e (build_prompt t (py_join [10, 10] (available_data dd))) = Text r \<and>
    json_loads e (strip_fence_close (strip_fence_open (py_strip r))) = None"
  then show "analyze_with_gemini e dd t = (JStr t, [], [])"
    by (simp add: analyze_with_gemini_def analyze_try_def model_answer_def)
next
  show "analyze_with_gemini e dd t = (JStr t, [], []) \<or>
    (\<exists>d i. analyze_with_gemini e dd t = (d, i, used_sources dd))"
    by (rule analyze_with_gemini_cases)
qed

theorem analyze_with_gemini_never_raises_witness:
  "analyze_try (env_of None None (Text (S ''no json'')) None)
     (Map.empty(k_transcript \<mapsto> S ''x'')) (S ''T'') = Inl JSONDecodeError \<and>
   analyze_with_gemini (env_of None None (Text (S ''no json'')) None)
     (Map.empty(k_transcript \<mapsto> S ''x'')) (S ''T'') = (JStr (S ''T''), [], []) \<and>
   analyze_with_gemini (env_of None None Raises None)
     (Map.empty(k_transcript \<mapsto> S ''x'')) (S ''T'') = (JStr (S ''T''), [], [])"
proof -
  let ?e = "env_of None None (Text (S ''no json'')) None"
  let ?dd = "Map.empty(k_transcript \<mapsto> S ''x'')"
  have a: "analyze_try ?e ?dd (S ''T'') = Inl JSONDecodeError"
    using available_transcript by (simp add: analyze_try_def model_answer_def env_of_def)
  have b: "available_data ?dd \<noteq> [] \<and>
     generate_content (env_of None None Raises None)
       (build_prompt (S ''T'') (py_join [10, 10] (available_data ?dd))) = Raises"
    using available_transcript by (simp add: env_of_def)
  from analyze_with_gemini_never_raises [of ?e ?dd "S ''T''" JSONDecodeError] a
    analyze_with_gemini_never_raises [of "env_of None None Raises None" ?dd "S ''T''"] b
  show ?thesis by blast
qed

text \<open>
  Claim C6. When the parsed answer is a list, its first element is the record: a list
  whose first element is an object gives what the object alone gives, the answer
  \<open>[{"dish_name": "X", "ingredients": ["a", "b"]}]\<close> gives the dish name \<open>X\<close> and the
  ingredients \<open>a,b\<close>, and the empty list gives the title, no ingredients and no source.
\<close>

theorem analyze_with_gemini_list_answer:
  assumes "available_data dd \<noteq> []"
  shows "(model_answer e dd t = Inr (JArr []) \<longrightarrow>
           analyze_with_gemini e dd t = (JStr t, [], [])) \<and>
         (model_answer e dd t = Inr (JArr (JObj items # rest)) \<and>
          model_answer e' dd t = Inr (JObj items) \<longrightarrow>
           analyze_with_gemini e dd t = analyze_with_gemini e' dd t) \<and>
         (model_answer e dd t = Inr (JArr (first # rest)) \<longrightarrow>
           analyze_with_gemini e dd t =
             (case read_record t first of
                Inl x \<Rightarrow> (JStr t, [], [])
              | Inr (d, i) \<Rightarrow> (d, i, used_sources dd))) \<and>
         (model_answer e dd t = Inr wrapped_example \<longrightarrow>
           analyze_with_gemini e dd t = (JStr (S ''X''), S ''a,b'', used_sources dd))"
  using assms read_record_example [of t]
  unfolding analyze_with_gemini_def analyze_try_def wrapped_example_def unwrap_list_def
  by (auto split: sum.splits prod.splits)

theorem analyze_with_gemini_list_answer_witness:
  "available_data (Map.empty(k_transcript \<mapsto> S ''x'')) \<noteq> [] \<and>
   model_answer (env_of None None (Text (S ''[]'')) (Some (JArr [])))
     (Map.empty(k_transcript \<mapsto> S ''x'')) (S ''T'') = Inr (JArr []) \<and>
   analyze_with_gemini (env_of None None (Text (S ''[]'')) (Some (JArr [])))
     (Map.empty(k_transcript \<mapsto> S ''x'')) (S ''T'') = (JStr (S ''T''), [], []) \<and>
   model_answer (env_of None None (Text (S ''[{}]'')) (Some wrapped_example))
     (Map.empty(k_transcript \<mapsto> S ''x'')) (S ''T'') = Inr wrapped_example \<and>
   analyze_with_gemini (env_of None None (Text (S ''[{}]'')) (Some wrapped_example))
     (Map.empty(k_transcript \<mapsto> S ''x'')) (S ''T'') = (JStr (S ''X''), S ''a,b'', [src_transcript])"
proof -
  let ?dd = "Map.empty(k_transcript \<mapsto> S ''x'')"
  let ?e0 = "env_of None None (Text (S ''[]'')) (Some (JArr []))"
  let ?e1 = "env_of None None (Text (S ''[{}]'')) (Some wrapped_example)"
  have m0: "model_answer ?e0 ?dd (S ''T'') = Inr (JArr [])"
    by (simp add: model_answer_def env_of_def)
  have m1: "model_answer ?e1 ?dd (S ''T'') = Inr wrapped_example"
    by (simp add: model_answer_def env_of_def)
  have u: "used_sources ?dd = [src_transcript]"
    by (simp add: used_sources_def truthy_def k_transcript_def k_description_def k_comments_def)
  from analyze_with_gemini_list_answer [OF available_transcript, of ?e0 "S ''T''"]
    analyze_with_gemini_list_answer [OF available_transcript, of ?e1 "S ''T''"]
    available_transcript m0 m1 u
  show ?thesis by simp
qed

section \<open>Properties of the item processor\<close>

text \<open>The definitions unfolded to run the processor on concrete input.\<close>

lemmas eval_defs =
  process_single_video_def env_of_def check_if_video_exists_def bind_text_def surrogate_def
  utf8_len_def utf8_size_def bind_value_def bind_row_def make_row_def collect_data_def
  empty_world_def get_video_info_def update_status_def collect_def truthy_def
  analyze_with_gemini_def analyze_try_def available_data_def labelled_def model_answer_def
  unwrap_list_def wrapped_example_def read_record_def k_transcript_def k_description_def
  k_comments_def k_dish_name_def k_ingredients_def normalize_ingredients_def
  remove_whitespace_def strip_char_def comma_def is_space_def drop_while_end_def
  insert_recipe_def used_sources_def Let_def src_transcript_def
  src_description_def src_comments_def src_none_def

lemma used_sources_members:
  "(src_transcript \<in> set (used_sources dd) \<longleftrightarrow> truthy (dd k_transcript)) \<and>
   (src_description \<in> set (used_sources dd) \<longleftrightarrow> truthy (dd k_description)) \<and>
   (src_comments \<in> set (used_sources dd) \<longleftrightarrow> truthy (dd k_comments))"
  by (simp add: used_sources_def src_transcript_def src_description_def src_comments_def)

lemma used_sources_order:
  "used_sources dd =
     filter (\<lambda>s. s \<in> set (used_sources dd)) [src_transcript, src_description, src_comments]"
  by (simp add: used_sources_def src_transcript_def src_description_def src_comments_def)

lemma truthy_collect:
  "truthy (collect k v dd k') \<longleftrightarrow> (if k' = k \<and> truthy v then True else truthy (dd k'))"
  by (auto simp: collect_def truthy_def split: option.splits)

lemma keys_distinct:
  "k_transcript \<noteq> k_description" "k_transcript \<noteq> k_comments" "k_description \<noteq> k_comments"
  by (simp_all add: k_transcript_def k_description_def k_comments_def)

lemma collect_data_slots:
  "(truthy (collect_data e vid ds k_transcript) \<longleftrightarrow> truthy (get_video_transcript e vid)) \<and>
   (truthy (collect_data e vid ds k_description) \<longleftrightarrow> ds \<noteq> []) \<and>
   (truthy (collect_data e vid ds k_comments) \<longleftrightarrow> truthy (get_video_comments e vid))"
  unfolding collect_data_def using keys_distinct
  by (auto simp: truthy_collect) (auto simp: truthy_def)

lemma extracted_sources:
  "snd (snd (analyze_with_gemini e dd t)) =
     (if \<exists>data d r. model_answer e dd t = Inr data \<and> unwrap_list data = Some d \<and>
                     read_record t d = Inr r
      then used_sources dd else [])"
proof (cases "available_data dd = []")
  case True
  then have "used_sources dd = []" by (simp add: available_data_empty)
  with True show ?thesis by (simp add: analyze_with_gemini_def analyze_try_def)
next
  case False
  then show ?thesis
    by (auto simp: analyze_with_gemini_def analyze_try_def split: sum.splits option.splits)
qed

lemma make_row_fields:
  "video_id (make_row e vid tt ds u) = vid \<and>
   title (make_row e vid tt ds u) = tt \<and>
   description (make_row e vid tt ds u) = ds \<and>
   url (make_row e vid tt ds u) = u \<and>
   dish_name (make_row e vid tt ds u) = fst (analyze_with_gemini e (collect_data e vid ds) tt) \<and>
   ingredients (make_row e vid tt ds u) =
     fst (snd (analyze_with_gemini e (collect_data e vid ds) tt)) \<and>
   data_sources (make_row e vid tt ds u) =
     (if snd (snd (analyze_with_gemini e (collect_data e vid ds) tt)) = [] then src_none
      else py_join [comma] (snd (snd (analyze_with_gemini e (collect_data e vid ds) tt))))"
  by (simp add: make_row_def Let_def case_prod_beta)

lemma absent_count:
  "check_if_video_exists rs vid = Inr False \<longleftrightarrow>
     bind_text vid = None \<and> length (filter (\<lambda>r. video_id r = vid) rs) = 0"
  by (auto simp: check_if_video_exists_def split: option.splits)

lemma insert_accepted:
  assumes "check_if_video_exists rs vid = Inr False" "video_id r = vid"
    "bind_row r = None" "db_failure e r = None"
  shows "insert_recipe e r rs = Inr (rs @ [r])"
proof -
  from assms(1) have "length (filter (\<lambda>r. video_id r = vid) rs) = 0"
    by (simp add: absent_count)
  then have "\<not> (\<exists>r' \<in> set rs. video_id r' = vid)"
    by (simp add: filter_empty_conv)
  with assms show ?thesis by (simp add: insert_recipe_def)
qed

lemma insert_refused:
  "bind_row r \<noteq> None \<or> db_failure e r \<noteq> None \<Longrightarrow> \<exists>x. insert_recipe e r rs = Inl x"
  by (auto simp: insert_recipe_def split: option.splits)

lemma insert_result:
  "insert_recipe e r rs = Inr rs' \<Longrightarrow> rs' = rs @ [r]"
  by (auto simp: insert_recipe_def split: option.splits if_splits)

lemma update_status_recipes: "recipes (update_status e sid c t s v w) = recipes w"
  by (simp add: update_status_def)


lemma process_gate_skips:
  "check_if_video_exists (recipes w) vid = Inr True \<Longrightarrow>
     \<exists>w'. process_single_video e vid sid i n w = Inr (Skipped vid, w') \<and> recipes w' = recipes w"
  by (simp add: process_single_video_def update_status_recipes)

lemma process_no_info:
  "check_if_video_exists (recipes w) vid = Inr False \<Longrightarrow> get_video_info e vid = None \<Longrightarrow>
     \<exists>w'. process_single_video e vid sid i n w = Inr (Failed vid None, w') \<and>
          recipes w' = recipes w"
  by (simp add: process_single_video_def update_status_recipes)

lemma process_stores:
  assumes "check_if_video_exists (recipes w) vid = Inr False"
    and "get_video_info e vid = Some (tt, ds, u)"
    and "insert_recipe e (make_row e vid tt ds u) (recipes w) = Inr rs'"
  shows "\<exists>w'. process_single_video e vid sid i n w =
           Inr (Success vid tt (dish_name (make_row e vid tt ds u))
                  (snd (snd (analyze_with_gemini e (collect_data e vid ds) tt))), w') \<and>
         recipes w' = rs'"
  using assms by (simp add: process_single_video_def update_status_recipes Let_def)

lemma process_insert_fails:
  assumes "check_if_video_exists (recipes w) vid = Inr False"
    and "get_video_info e vid = Some (tt, ds, u)"
    and "insert_recipe e (make_row e vid tt ds u) (recipes w) = Inl x"
  shows "\<exists>w'. process_single_video e vid sid i n w =
           Inr (Failed vid (Some (exn_text e x)), w') \<and> recipes w' = recipes w"
  using assms by (simp add: process_single_video_def update_status_recipes Let_def)

lemma process_result:
  assumes "process_single_video e vid sid i n w = Inr (out, w')"
  shows "outcome_video_id out = vid \<and> bind_text vid = None \<and>
         (case out of
            Skipped v \<Rightarrow> check_if_video_exists (recipes w) vid = Inr True \<and> recipes w' = recipes w
          | Failed v m \<Rightarrow> check_if_video_exists (recipes w) vid = Inr False \<and> recipes w' = recipes w
          | Success v tt dn srcs \<Rightarrow>
              check_if_video_exists (recipes w) vid = Inr False \<and>
              (\<exists>ds u. get_video_info e vid = Some (tt, ds, u) \<and>
                 dn = dish_name (make_row e vid tt ds u) \<and>
                 srcs = snd (snd (analyze_with_gemini e (collect_data e vid ds) tt)) \<and>
                 recipes w' = recipes w @ [make_row e vid tt ds u]))"
proof (cases "check_if_video_exists (recipes w) vid")
  case (Inl x)
  with assms show ?thesis by (simp add: process_single_video_def)
next
  case (Inr b)
  then have bt: "bind_text vid = None"
    by (auto simp: check_if_video_exists_def split: option.splits)
  show ?thesis
  proof (cases b)
    case True
    with Inr assms bt show ?thesis
      by (auto simp: process_single_video_def update_status_recipes)
  next
    case False
    with Inr have absent: "check_if_video_exists (recipes w) vid = Inr False" by simp
    show ?thesis
    proof (cases "get_video_info e vid")
      case None
      from process_no_info [OF absent None, of sid i n] assms absent bt
      show ?thesis by auto
    next
      case (Some info)
      obtain tt ds u where info: "info = (tt, ds, u)" by (cases info)
      note gi = Some [unfolded info]
      show ?thesis
      proof (cases "insert_recipe e (make_row e vid tt ds u) (recipes w)")
        case (Inl x)
        from process_insert_fails [OF absent gi Inl, of sid i n] assms absent bt
        show ?thesis by auto
      next
        case (Inr rs')
        from process_stores [OF absent gi Inr, of sid i n] insert_result [OF Inr] assms absent bt gi
        show ?thesis by auto
      qed
    qed
  qed
qed

text \<open>
  Claim C8, as amended. The source list that \<open>analyze_with_gemini\<close> returns is the list
  of the non-empty slots among captions, description and comments, in that order, exactly
  when the extraction succeeds: the model answers, the answer parses, and its record (the
  first element of a list answer) reads. It is computed from the slots alone. On every
  other path it is empty: no slot, an error of the model or of the parser, the empty list
  \<open>[]\<close>, a malformed record. The slots the item processor hands over are non-empty exactly
  when the captions were fetched, the description is not empty and the comments were
  fetched. The \<open>data_sources\<close> column of the row the processor builds is the list returned
  on these slots joined by commas, or the sentinel when that list is empty; a call that
  stores a row appends this row, and a call that reports success reports this list.
\<close>

theorem data_sources_recorded:
  "snd (snd (analyze_with_gemini e dd t)) =
     (if \<exists>data d r. model_answer e dd t = Inr data \<and> unwrap_list data = Some d \<and>
                     read_record t d = Inr r
      then used_sources dd else []) \<and>
   (model_answer e dd t = Inr (JArr []) \<longrightarrow> snd (snd (analyze_with_gemini e dd t)) = []) \<and>
   (analyze_try e dd t = Inl x \<longrightarrow> snd (snd (analyze_with_gemini e dd t)) = []) \<and>
   (src_transcript \<in> set (used_sources dd) \<longleftrightarrow> truthy (dd k_transcript)) \<and>
   (src_description \<in> set (used_sources dd) \<longleftrightarrow> truthy (dd k_description)) \<and>
   (src_comments \<in> set (used_sources dd) \<longleftrightarrow> truthy (dd k_comments)) \<and>
   used_sources dd =
     filter (\<lambda>s. s \<in> set (used_sources dd)) [src_transcript, src_description, src_comments] \<and>
   (truthy (collect_data e vid ds k_transcript) \<longleftrightarrow> truthy (get_video_transcript e vid)) \<and>
   (truthy (collect_data e vid ds k_description) \<longleftrightarrow> ds \<noteq> []) \<and>
   (truthy (collect_data e vid ds k_comments) \<longleftrightarrow> truthy (get_video_comments e vid)) \<and>
   data_sources (make_row e vid tt ds u) =
     (if snd (snd (analyze_with_gemini e (collect_data e vid ds) tt)) = [] then src_none
      else py_join [comma] (snd (snd (analyze_with_gemini e (collect_data e vid ds) tt)))) \<and>
   (check_if_video_exists (recipes w) vid = Inr False \<and>
    get_video_info e vid = Some (tt, ds, u) \<and>
    bind_row (make_row e vid tt ds u) = None \<and> db_failure e (make_row e vid tt ds u) = None \<longrightarrow>
      (\<exists>w'. process_single_video e vid sid i n w =
          Inr (Success vid tt (dish_name (make_row e vid tt ds u))
                 (snd (snd (analyze_with_gemini e (collect_data e vid ds) tt))), w') \<and>
          recipes w' = recipes w @ [make_row e vid tt ds u])) \<and>
   (process_single_video e vid sid i n w = Inr (Success v tt' dn srcs, w1) \<longrightarrow>
      (\<exists>ds' u'. get_video_info e vid = Some (tt', ds', u') \<and>
         srcs = snd (snd (analyze_with_gemini e (collect_data e vid ds') tt')) \<and>
         recipes w1 = recipes w @ [make_row e vid tt' ds' u']))"
proof (intro conjI impI)
  show "snd (snd (analyze_with_gemini e dd t)) =
     (if \<exists>data d r. model_answer e dd t = Inr data \<and> unwrap_list data = Some d \<and>
                     read_record t d = Inr r
      then used_sources dd else [])"
    by (rule extracted_sources)
next
  assume "model_answer e dd t = Inr (JArr [])"
  then show "snd (snd (analyze_with_gemini e dd t)) = []"
    by (simp add: extracted_sources unwrap_list_def)
next
  assume "analyze_try e dd t = Inl x"
  then show "snd (snd (analyze_with_gemini e dd t)) = []"
    by (simp add: analyze_with_gemini_def)
next
  show "used_sources dd =
     filter (\<lambda>s. s \<in> set (used_sources dd)) [src_transcript, src_description, src_comments]"
    by (rule used_sources_order)
next
  show "data_sources (make_row e vid tt ds u) =
     (if snd (snd (analyze_with_gemini e (collect_data e vid ds) tt)) = [] then src_none
      else py_join [comma] (snd (snd (analyze_with_gemini e (collect_data e vid ds) tt))))"
    by (simp add: make_row_fields)
next
  assume a: "check_if_video_exists (recipes w) vid = Inr False \<and>
    get_video_info e vid = Some (tt, ds, u) \<and>
    bind_row (make_row e vid tt ds u) = None \<and> db_failure e (make_row e vid tt ds u) = None"
  then have "insert_recipe e (make_row e vid tt ds u) (recipes w) =
      Inr (recipes w @ [make_row e vid tt ds u])"
    by (intro insert_accepted [of _ vid]) (simp_all add: make_row_fields)
  with a process_stores [of w vid e tt ds u _ sid i n]
  show "\<exists>w'. process_single_video e vid sid i n w =
          Inr (Success vid tt (dish_name (make_row e vid tt ds u))
                 (snd (snd (analyze_with_gemini e (collect_data e vid ds) tt))), w') \<and>
          recipes w' = recipes w @ [make_row e vid tt ds u]"
    by blast
next
  assume "process_single_video e vid sid i n w = Inr (Success v tt' dn srcs, w1)"
  from process_result [OF this]
  show "\<exists>ds' u'. get_video_info e vid = Some (tt', ds', u') \<and>
         srcs = snd (snd (analyze_with_gemini e (collect_data e vid ds') tt')) \<and>
         recipes w1 = recipes w @ [make_row e vid tt' ds' u']"
    by auto
qed (simp_all add: used_sources_members collect_data_slots)

lemma good_row:
  "make_row env_good (S ''v'') (S ''T'') (S ''desc'') (S ''https://www.youtube.com/watch?v=v'') =
     \<lparr>video_id = S ''v'', title = S ''T'', description = S ''desc'', ingredients = S ''a,b'',
      dish_name = JStr (S ''X''), url = S ''https://www.youtube.com/watch?v=v'',
      data_sources = src_transcript @ [comma] @ src_description\<rparr>"
  by (simp add: eval_defs env_good_def)

lemma good_facts:
  "check_if_video_exists (recipes empty_world) (S ''v'') = Inr False"
  "get_video_info env_good (S ''v'') =
     Some (S ''T'', S ''desc'', S ''https://www.youtube.com/watch?v=v'')"
  "bind_row (make_row env_good (S ''v'') (S ''T'') (S ''desc'')
     (S ''https://www.youtube.com/watch?v=v'')) = None"
  "db_failure env_good (make_row env_good (S ''v'') (S ''T'') (S ''desc'')
     (S ''https://www.youtube.com/watch?v=v'')) = None"
  "snd (snd (analyze_with_gemini env_good (collect_data env_good (S ''v'') (S ''desc'')) (S ''T''))) =
     [src_transcript, src_description]"
  by (simp_all add: eval_defs env_good_def)

text \<open>
  With captions and a description and no comments, and an answer that parses, the list is
  captions and description, and so is the stored column.
\<close>

theorem data_sources_recorded_witness:
  "check_if_video_exists (recipes empty_world) (S ''v'') = Inr False \<and>
   get_video_info env_good (S ''v'') =
     Some (S ''T'', S ''desc'', S ''https://www.youtube.com/watch?v=v'') \<and>
   truthy (get_video_transcript env_good (S ''v'')) \<and>
   \<not> truthy (get_video_comments env_good (S ''v'')) \<and>
   snd (snd (analyze_with_gemini env_good (collect_data env_good (S ''v'') (S ''desc'')) (S ''T''))) =
     [src_transcript, src_description] \<and>
   data_sources (make_row env_good (S ''v'') (S ''T'') (S ''desc'')
     (S ''https://www.youtube.com/watch?v=v'')) = src_transcript @ [comma] @ src_description \<and>
   (\<exists>w'. process_single_video env_good (S ''v'') (S ''run'') 1 1 empty_world =
       Inr (Success (S ''v'') (S ''T'') (JStr (S ''X'')) [src_transcript, src_description], w') \<and>
       map data_sources (recipes w') = [src_transcript @ [comma] @ src_description])"
proof -
  let ?row = "make_row env_good (S ''v'') (S ''T'') (S ''desc'') (S ''https://www.youtube.com/watch?v=v'')"
  note t = data_sources_recorded [of env_good _ _ _ "S ''v''" "S ''desc''" "S ''T''"
      "S ''https://www.youtube.com/watch?v=v''" empty_world "S ''run''" 1 1]
  have e: "truthy (get_video_transcript env_good (S ''v''))"
    "\<not> truthy (get_video_comments env_good (S ''v''))"
    by (simp_all add: env_good_def env_of_def truthy_def)
  have d: "dish_name ?row = JStr (S ''X'')" "data_sources ?row = src_transcript @ [comma] @ src_description"
    by (simp_all only: good_row recipe.simps)
  have r: "recipes empty_world = []" by (simp add: empty_world_def)
  have pre: "check_if_video_exists (recipes empty_world) (S ''v'') = Inr False \<and>
    get_video_info env_good (S ''v'') =
      Some (S ''T'', S ''desc'', S ''https://www.youtube.com/watch?v=v'') \<and>
    bind_row ?row = None \<and> db_failure env_good ?row = None"
    using good_facts(1-4) by (intro conjI)
  note stored = t [THEN conjunct2, THEN conjunct2, THEN conjunct2, THEN conjunct2,
      THEN conjunct2, THEN conjunct2, THEN conjunct2, THEN conjunct2, THEN conjunct2,
      THEN conjunct2, THEN conjunct2, THEN conjunct1, THEN mp, OF pre]
  from stored
  have "\<exists>w'. process_single_video env_good (S ''v'') (S ''run'') 1 1 empty_world =
          Inr (Success (S ''v'') (S ''T'') (dish_name ?row)
                 (snd (snd (analyze_with_gemini env_good
                    (collect_data env_good (S ''v'') (S ''desc'')) (S ''T'')))), w') \<and>
          recipes w' = recipes empty_world @ [?row]" .
  then obtain w' where
    p: "process_single_video env_good (S ''v'') (S ''run'') 1 1 empty_world =
          Inr (Success (S ''v'') (S ''T'') (dish_name ?row)
                 (snd (snd (analyze_with_gemini env_good
                    (collect_data env_good (S ''v'') (S ''desc'')) (S ''T'')))), w')"
    and rw: "recipes w' = recipes empty_world @ [?row]"
    by (elim exE conjE)
  have p': "process_single_video env_good (S ''v'') (S ''run'') 1 1 empty_world =
       Inr (Success (S ''v'') (S ''T'') (JStr (S ''X'')) [src_transcript, src_description], w')"
    using p by (simp only: d good_facts)
  have one: "\<And>x. map data_sources ([] @ [x]) = [data_sources x]" by simp
  have "map data_sources (recipes w') = [data_sources ?row]"
    unfolding rw r by (rule one)
  then have m: "map data_sources (recipes w') = [src_transcript @ [comma] @ src_description]"
    by (simp only: d)
  from p' m have
    "\<exists>w'. process_single_video env_good (S ''v'') (S ''run'') 1 1 empty_world =
       Inr (Success (S ''v'') (S ''T'') (JStr (S ''X'')) [src_transcript, src_description], w') \<and>
       map data_sources (recipes w') = [src_transcript @ [comma] @ src_description]"
    by (intro exI [of _ w'] conjI)
  with good_facts(1,2,5) e d(2) show ?thesis by (intro conjI)
qed

text \<open>
  The claim as stated fails when the extraction falls back: with captions available and an
  answer that does not parse, the returned list is empty and the stored column is the
  sentinel.
\<close>

theorem data_sources_counterexample:
  "truthy ((Map.empty(k_transcript \<mapsto> S ''x'')) k_transcript) \<and>
   snd (snd (analyze_with_gemini env_unparsed (Map.empty(k_transcript \<mapsto> S ''x'')) (S ''T''))) = [] \<and>
   truthy (get_video_transcript env_unparsed (S ''v'')) \<and>
   (case process_single_video env_unparsed (S ''v'') (S ''run'') 1 1 empty_world of
      Inl x \<Rightarrow> False
    | Inr (out, w') \<Rightarrow>
        out = Success (S ''v'') (S ''T'') (JStr (S ''T'')) [] \<and>
        map data_sources (recipes w') = [src_none])"
  by (simp add: eval_defs env_unparsed_def)

text \<open>
  Claim C1, as amended. Let the existence check find the identifier absent from the store.
  If the metadata of the item is found and the database accepts the \<open>INSERT\<close> (every
  column value can be bound and the engine reports no failure), the first call of the item
  processor returns status \<open>success\<close> and appends exactly one row, so that the store holds
  exactly one row for the identifier, and any later call on the same identifier, in
  whatever environment, returns status \<open>skipped\<close> and leaves the rows as they are. If the
  metadata is not found, or the \<open>INSERT\<close> is refused, the first call returns status
  \<open>error\<close> and inserts nothing. After any two calls that return, the store holds at most
  one row for the identifier.
\<close>

theorem process_single_video_idempotent:
  assumes absent: "check_if_video_exists (recipes w) vid = Inr False"
  shows "(get_video_info e1 vid = Some (tt, ds, u) \<and>
          bind_row (make_row e1 vid tt ds u) = None \<and>
          db_failure e1 (make_row e1 vid tt ds u) = None \<longrightarrow>
            (\<exists>dn srcs w1.
               process_single_video e1 vid sid1 i1 n1 w = Inr (Success vid tt dn srcs, w1) \<and>
               outcome_status (Success vid tt dn srcs) = S ''success'' \<and>
               recipes w1 = recipes w @ [make_row e1 vid tt ds u] \<and>
               length (filter (\<lambda>r. video_id r = vid) (recipes w1)) = 1 \<and>
               (\<exists>w2. process_single_video e2 vid sid2 i2 n2 w1 = Inr (Skipped vid, w2) \<and>
                     outcome_status (Skipped vid) = S ''skipped'' \<and>
                     recipes w2 = recipes w1))) \<and>
         (get_video_info e1 vid = None \<longrightarrow>
            (\<exists>w1. process_single_video e1 vid sid1 i1 n1 w = Inr (Failed vid None, w1) \<and>
                  outcome_status (Failed vid None) = S ''error'' \<and>
                  recipes w1 = recipes w)) \<and>
         (get_video_info e1 vid = Some (tt, ds, u) \<and>
          (bind_row (make_row e1 vid tt ds u) \<noteq> None \<or>
           db_failure e1 (make_row e1 vid tt ds u) \<noteq> None) \<longrightarrow>
            (\<exists>m w1. process_single_video e1 vid sid1 i1 n1 w = Inr (Failed vid (Some m), w1) \<and>
                    recipes w1 = recipes w)) \<and>
         (process_single_video e1 vid sid1 i1 n1 w = Inr (o1, v1) \<and>
          process_single_video e2 vid sid2 i2 n2 v1 = Inr (o2, v2) \<longrightarrow>
            length (filter (\<lambda>r. video_id r = vid) (recipes v2)) \<le> 1)"
proof (intro conjI impI)
  assume a: "get_video_info e1 vid = Some (tt, ds, u) \<and>
          bind_row (make_row e1 vid tt ds u) = None \<and>
          db_failure e1 (make_row e1 vid tt ds u) = None"
  let ?row = "make_row e1 vid tt ds u"
  from a absent have ins: "insert_recipe e1 ?row (recipes w) = Inr (recipes w @ [?row])"
    by (intro insert_accepted [of _ vid]) (simp_all add: make_row_fields)
  from a have gi: "get_video_info e1 vid = Some (tt, ds, u)" by simp
  from process_stores [OF absent gi ins, of sid1 i1 n1] obtain w1 where
    p1: "process_single_video e1 vid sid1 i1 n1 w =
           Inr (Success vid tt (dish_name ?row)
                  (snd (snd (analyze_with_gemini e1 (collect_data e1 vid ds) tt))), w1)"
    and r1: "recipes w1 = recipes w @ [?row]"
    by blast
  from absent have "length (filter (\<lambda>r. video_id r = vid) (recipes w)) = 0"
    and bt: "bind_text vid = None"
    by (simp_all add: absent_count)
  with r1 have one: "length (filter (\<lambda>r. video_id r = vid) (recipes w1)) = 1"
    by (simp add: make_row_fields)
  with bt have "check_if_video_exists (recipes w1) vid = Inr True"
    by (simp add: check_if_video_exists_def)
  from process_gate_skips [OF this, of e2 sid2 i2 n2] obtain w2 where
    p2: "process_single_video e2 vid sid2 i2 n2 w1 = Inr (Skipped vid, w2)"
    and r2: "recipes w2 = recipes w1"
    by blast
  from p1 r1 one p2 r2
  show "\<exists>dn srcs w1.
               process_single_video e1 vid sid1 i1 n1 w = Inr (Success vid tt dn srcs, w1) \<and>
               outcome_status (Success vid tt dn srcs) = S ''success'' \<and>
               recipes w1 = recipes w @ [make_row e1 vid tt ds u] \<and>
               length (filter (\<lambda>r. video_id r = vid) (recipes w1)) = 1 \<and>
               (\<exists>w2. process_single_video e2 vid sid2 i2 n2 w1 = Inr (Skipped vid, w2) \<and>
                     outcome_status (Skipped vid) = S ''skipped'' \<and>
                     recipes w2 = recipes w1)"
    by auto
next
  assume "get_video_info e1 vid = None"
  from process_no_info [OF absent this, of sid1 i1 n1]
  show "\<exists>w1. process_single_video e1 vid sid1 i1 n1 w = Inr (Failed vid None, w1) \<and>
                  outcome_status (Failed vid None) = S ''error'' \<and>
                  recipes w1 = recipes w"
    by auto
next
  assume a: "get_video_info e1 vid = Some (tt, ds, u) \<and>
          (bind_row (make_row e1 vid tt ds u) \<noteq> None \<or>
           db_failure e1 (make_row e1 vid tt ds u) \<noteq> None)"
  then obtain x where "insert_recipe e1 (make_row e1 vid tt ds u) (recipes w) = Inl x"
    using insert_refused [of "make_row e1 vid tt ds u" e1 "recipes w"] by blast
  from process_insert_fails [OF absent _ this, of sid1 i1 n1] a
  show "\<exists>m w1. process_single_video e1 vid sid1 i1 n1 w = Inr (Failed vid (Some m), w1) \<and>
                    recipes w1 = recipes w"
    by blast
next
  assume a: "process_single_video e1 vid sid1 i1 n1 w = Inr (o1, v1) \<and>
          process_single_video e2 vid sid2 i2 n2 v1 = Inr (o2, v2)"
  note r1 = process_result [OF a [THEN conjunct1]]
  note r2 = process_result [OF a [THEN conjunct2]]
  from absent have c0: "length (filter (\<lambda>r. video_id r = vid) (recipes w)) = 0"
    by (simp add: absent_count)
  have c1: "length (filter (\<lambda>r. video_id r = vid) (recipes v1)) \<le> 1"
    using r1 c0 by (cases o1) (auto simp: make_row_fields)
  show "length (filter (\<lambda>r. video_id r = vid) (recipes v2)) \<le> 1"
  proof (cases o2)
    case (Skipped x)
    with r2 c1 show ?thesis by simp
  next
    case (Failed x m)
    with r2 c1 show ?thesis by simp
  next
    case (Success x a b c)
    with r2 have "check_if_video_exists (recipes v1) vid = Inr False"
      and "\<exists>r. recipes v2 = recipes v1 @ [r]" by auto
    then show ?thesis by (auto simp: absent_count)
  qed
qed

text \<open>
  On the empty store, with metadata, captions and a parsed answer, the first call stores
  one row and the second is skipped.
\<close>

theorem process_single_video_idempotent_witness:
  "check_if_video_exists (recipes empty_world) (S ''v'') = Inr False \<and>
   get_video_info env_good (S ''v'') =
     Some (S ''T'', S ''desc'', S ''https://www.youtube.com/watch?v=v'') \<and>
   (\<exists>dn srcs w1.
      process_single_video env_good (S ''v'') (S ''run'') 1 2 empty_world =
        Inr (Success (S ''v'') (S ''T'') dn srcs, w1) \<and>
      length (filter (\<lambda>r. video_id r = S ''v'') (recipes w1)) = 1 \<and>
      (\<exists>w2. process_single_video env_unparsed (S ''v'') (S ''run'') 2 2 w1 =
              Inr (Skipped (S ''v''), w2) \<and>
            recipes w2 = recipes w1))"
proof -
  let ?row = "make_row env_good (S ''v'') (S ''T'') (S ''desc'') (S ''https://www.youtube.com/watch?v=v'')"
  have pre: "get_video_info env_good (S ''v'') =
      Some (S ''T'', S ''desc'', S ''https://www.youtube.com/watch?v=v'') \<and>
    bind_row ?row = None \<and> db_failure env_good ?row = None"
    using good_facts(2-4) by (intro conjI)
  note t = process_single_video_idempotent [OF good_facts(1), of env_good "S ''T''" "S ''desc''"
      "S ''https://www.youtube.com/watch?v=v''" "S ''run''" 1 2 env_unparsed "S ''run''" 2 2,
      THEN conjunct1, THEN mp, OF pre]
  from t have "\<exists>dn srcs w1.
      process_single_video env_good (S ''v'') (S ''run'') 1 2 empty_world =
        Inr (Success (S ''v'') (S ''T'') dn srcs, w1) \<and>
      length (filter (\<lambda>r. video_id r = S ''v'') (recipes w1)) = 1 \<and>
      (\<exists>w2. process_single_video env_unparsed (S ''v'') (S ''run'') 2 2 w1 =
              Inr (Skipped (S ''v''), w2) \<and>
            recipes w2 = recipes w1)"
    by (elim exE conjE) (intro exI conjI, assumption+)
  with good_facts(1,2) show ?thesis by (intro conjI)
qed

text \<open>
  The claim as stated fails in each of these cases. When the metadata is not found the
  first call inserts nothing and the second call is not skipped. The same happens when the
  answer gives a list as dish name, which the database cannot bind, and when the engine
  fails on the \<open>INSERT\<close> (then a second call in a sound environment stores the row
  instead of being skipped). For an identifier with a lone surrogate the existence check
  itself raises, outside the \<open>try\<close> block, and the call returns nothing.
\<close>

theorem process_single_video_idempotent_counterexample:
  "check_if_video_exists (recipes empty_world) (S ''v'') = Inr False \<and>
   (case process_single_video env_missing (S ''v'') (S ''run'') 1 2 empty_world of
      Inl x \<Rightarrow> False
    | Inr (out, w1) \<Rightarrow>
        out = Failed (S ''v'') None \<and> recipes w1 = [] \<and>
        (case process_single_video env_missing (S ''v'') (S ''run'') 2 2 w1 of
           Inl x \<Rightarrow> False
         | Inr (out2, w2) \<Rightarrow> outcome_status out2 = S ''error'')) \<and>
   get_video_info env_listdish (S ''v'') =
     Some (S ''T'', S ''desc'', S ''https://www.youtube.com/watch?v=v'') \<and>
   (case process_single_video env_listdish (S ''v'') (S ''run'') 1 2 empty_world of
      Inl x \<Rightarrow> False
    | Inr (out, w1) \<Rightarrow>
        outcome_status out = S ''error'' \<and> recipes w1 = [] \<and>
        (case process_single_video env_listdish (S ''v'') (S ''run'') 2 2 w1 of
           Inl x \<Rightarrow> False
         | Inr (out2, w2) \<Rightarrow> outcome_status out2 = S ''error'')) \<and>
   (case process_single_video (env_good\<lparr>db_failure := \<lambda>_. Some OperationalError\<rparr>)
           (S ''v'') (S ''run'') 1 2 empty_world of
      Inl x \<Rightarrow> False
    | Inr (out, w1) \<Rightarrow>
        outcome_status out = S ''error'' \<and> recipes w1 = [] \<and>
        (case process_single_video env_good (S ''v'') (S ''run'') 2 2 w1 of
           Inl x \<Rightarrow> False
         | Inr (out2, w2) \<Rightarrow> outcome_status out2 = S ''success'')) \<and>
   filter (\<lambda>r. video_id r = [55296]) (recipes empty_world) = [] \<and>
   process_single_video env_good [55296] (S ''run'') 1 2 empty_world = Inl UnicodeEncodeError"
  by (simp add: eval_defs env_missing_def env_listdish_def env_good_def)

section \<open>Properties of the batch driver\<close>












section \<open>Properties of the recommendation matcher\<close>

text \<open>The definitions unfolded to run the matcher on concrete input.\<close>

lemmas match_defs =
  recommend_recipe_def query_values_def iteration_order_def like_pattern_def token_list_def
  parse_tokens_def select_like_def like_term_def like_def c_string_def bind_text_def
  surrogate_def utf8_len_def utf8_size_def py_strip_def drop_while_end_def
  is_space_def comma_def percent_def underscore_def sql_lower_def row_of_def















































text \<open>
  Claim C2. The guard of \<open>recommend_recipe\<close> tests the raw input, not the parsed set:
  the empty string gets the "please enter ingredients" message, but for \<open>",, ,"\<close> the
  parsed set is empty, the statement is built with no condition after \<open>WHERE\<close>, and its
  execution raises.
\<close>

theorem recommend_recipe_blank_tokens:
  "parse_tokens (S '',, ,'') = {} \<and>
   recommend_recipe rank tie_up rs (S '',, ,'') = ServerError OperationalError \<and>
   recommend_recipe rank tie_up rs [] = Message msg_enter"
  by (simp add: match_defs)


















end
